theory Spec2Isabelle
  imports Complex_Main "HOL-Library.Monad_Syntax"
begin

section \<open>Numbers\<close>

text \<open>
  The program is JavaScript: every number is an IEEE double, and a matrix is a
  \<^verbatim>\<open>Float32Array(16)\<close>. Numbers are modelled as \<^typ>\<open>real\<close>: arithmetic is exact,
  rounding is not modelled. The one place where the reals and the doubles differ in
  kind rather than in precision is division by zero, which in JavaScript yields
  \<^verbatim>\<open>Infinity\<close> or \<^verbatim>\<open>NaN\<close> and in HOL yields \<open>0\<close>. So a \<^verbatim>\<open>/\<close> of the source whose
  divisor is computed is \<open>fdiv\<close>, whose result is \<open>None\<close> exactly when the JavaScript
  result is no finite number; only a division by a nonzero literal, or by the loop
  bound inside its loop, is written with HOL's division. \<^verbatim>\<open>Math.tan\<close> is the quotient
  of sine and cosine. The values that reach the program from its numeric and range
  inputs are finite numbers.
\<close>

definition fdiv :: "real \<Rightarrow> real \<Rightarrow> real option" where
  "fdiv a b = (if b = 0 then None else Some (a / b))"

definition ftan :: "real \<Rightarrow> real option" where
  "ftan x = fdiv (sin x) (cos x)"


section \<open>Minimal mat4 (column-major; column vectors)\<close>

text \<open>
  A matrix is the list of the 16 cells of its \<^verbatim>\<open>Float32Array\<close>; a fresh array is
  filled with zeros, and \<^verbatim>\<open>m[i] = v\<close> is a list update. Every index the
  source writes or reads is below 16.
\<close>

type_synonym mat4 = "real list"

definition idx4 :: "nat \<Rightarrow> nat \<Rightarrow> nat" where
  "idx4 r c = c * 4 + r"

definition mat4Identity :: mat4 where
  "mat4Identity = (replicate 16 0)[0 := 1, 5 := 1, 10 := 1, 15 := 1]"

text \<open>
  \<^verbatim>\<open>mat4Mul(B, A)\<close>: the outer loop runs over the rows \<open>r\<close>, the inner one over the
  columns \<open>c\<close>, each iteration writing one cell of the output array.
\<close>

definition mat4Mul :: "mat4 \<Rightarrow> mat4 \<Rightarrow> mat4" where
  "mat4Mul B A =
     fold (\<lambda>r. fold (\<lambda>c out. out[idx4 r c :=
                B ! idx4 r 0 * A ! idx4 0 c +
                B ! idx4 r 1 * A ! idx4 1 c +
                B ! idx4 r 2 * A ! idx4 2 c +
                B ! idx4 r 3 * A ! idx4 3 c]) [0..<4])
          [0..<4] (replicate 16 0)"

definition mat4Translate :: "real \<Rightarrow> real \<Rightarrow> real \<Rightarrow> mat4" where
  "mat4Translate tx ty tz = mat4Identity[12 := tx, 13 := ty, 14 := tz]"

definition mat4Scale :: "real \<Rightarrow> real \<Rightarrow> real \<Rightarrow> mat4" where
  "mat4Scale sx sy sz = mat4Identity[0 := sx, 5 := sy, 10 := sz]"

definition mat4RotateZ :: "real \<Rightarrow> mat4" where
  "mat4RotateZ a =
     (let c = cos a; s = sin a
      in mat4Identity[0 := c, 4 := - s, 1 := s, 5 := c])"

definition mat4TRS :: "real \<Rightarrow> real \<Rightarrow> real \<Rightarrow> real \<Rightarrow> real \<Rightarrow> real \<Rightarrow> real \<Rightarrow> mat4" where
  "mat4TRS tx ty tz angZ sx sy sz =
     mat4Mul (mat4Translate tx ty tz) (mat4Mul (mat4RotateZ angZ) (mat4Scale sx sy sz))"

text \<open>Perspective (right-handed, clip z in [-1,+1]).\<close>

definition mat4Perspective :: "real \<Rightarrow> real \<Rightarrow> real \<Rightarrow> real \<Rightarrow> mat4 option" where
  "mat4Perspective fovDeg aspect n f = do {
     let fov = fovDeg * pi / 180;
     tn \<leftarrow> ftan (fov / 2);
     f' \<leftarrow> fdiv 1 tn;
     nf \<leftarrow> fdiv 1 (n - f);
     m0 \<leftarrow> fdiv f' aspect;
     Some ((replicate 16 0)[0 := m0, 5 := f', 10 := (f + n) * nf, 11 := - 1,
                            14 := (2 * f * n) * nf])
   }"

text \<open>Orthographic (right-handed, clip z in [-1,+1]).\<close>

definition mat4Ortho :: "real \<Rightarrow> real \<Rightarrow> real \<Rightarrow> real \<Rightarrow> real \<Rightarrow> real \<Rightarrow> mat4 option" where
  "mat4Ortho l r b t n f = do {
     m0 \<leftarrow> fdiv 2 (r - l);
     m5 \<leftarrow> fdiv 2 (t - b);
     m10 \<leftarrow> fdiv (- 2) (f - n);
     m12 \<leftarrow> fdiv (- (r + l)) (r - l);
     m13 \<leftarrow> fdiv (- (t + b)) (t - b);
     m14 \<leftarrow> fdiv (- (f + n)) (f - n);
     Some ((replicate 16 0)[0 := m0, 5 := m5, 10 := m10, 12 := m12, 13 := m13,
                            14 := m14, 15 := 1])
   }"

text \<open>View: camera at \<open>(px, py, pz)\<close>, yaw around Z; rotate by \<open>- angZ\<close>, then
  translate by the negated position.\<close>

definition mat4View :: "real \<Rightarrow> real \<Rightarrow> real \<Rightarrow> real \<Rightarrow> mat4" where
  "mat4View px py pz angZ = mat4Mul (mat4RotateZ (- angZ)) (mat4Translate (- px) (- py) (- pz))"

text \<open>
  The vertex shader multiplies a matrix with a column vector
  (\<^verbatim>\<open>uModel * vec4(aPosition, 0.0, 1.0)\<close>, \<^verbatim>\<open>uViewProj * world\<close>); a GLSL \<^verbatim>\<open>vec4\<close> has
  exactly four components.
\<close>

type_synonym vec4 = "real \<times> real \<times> real \<times> real"

definition mat4MulVec :: "mat4 \<Rightarrow> vec4 \<Rightarrow> vec4" where
  "mat4MulVec M v =
     (case v of (x, y, z, w) \<Rightarrow>
       (M ! idx4 0 0 * x + M ! idx4 0 1 * y + M ! idx4 0 2 * z + M ! idx4 0 3 * w,
        M ! idx4 1 0 * x + M ! idx4 1 1 * y + M ! idx4 1 2 * z + M ! idx4 1 3 * w,
        M ! idx4 2 0 * x + M ! idx4 2 1 * y + M ! idx4 2 2 * z + M ! idx4 2 3 * w,
        M ! idx4 3 0 * x + M ! idx4 3 1 * y + M ! idx4 3 2 * z + M ! idx4 3 3 * w))"

definition vs_main :: "mat4 \<Rightarrow> mat4 \<Rightarrow> real \<times> real \<Rightarrow> vec4" where
  "vs_main uModel uViewProj aPosition =
     (let world = mat4MulVec uModel (fst aPosition, snd aPosition, 0, 1)
      in mat4MulVec uViewProj world)"

text \<open>
  The matrix product as the specification words it: the cell in row \<open>r\<close> and column
  \<open>c\<close> of \<open>B * A\<close> is the sum over \<open>k\<close> of \<open>B(r,k) * A(k,c)\<close>, the cell \<open>(r,c)\<close> being
  stored at position \<open>4 * c + r\<close>.
\<close>

definition mat_cell :: "mat4 \<Rightarrow> nat \<Rightarrow> nat \<Rightarrow> real" where
  "mat_cell M r c = M ! (4 * c + r)"

definition mat_product :: "mat4 \<Rightarrow> mat4 \<Rightarrow> mat4" where
  "mat_product B A =
     map (\<lambda>i. \<Sum>k \<leftarrow> [0..<4]. mat_cell B (i mod 4) k * mat_cell A k (i div 4)) [0..<16]"


section \<open>Geometry (VAO)\<close>

text \<open>
  A draw descriptor: \<open>vao\<close> stands for the vertex array object and holds the floats
  that \<^verbatim>\<open>makeVAO\<close> uploads into its buffer; attribute 0 reads them two at a time with
  stride 0. \<open>count\<close> is \<^verbatim>\<open>verts.length / 2\<close>, a JavaScript number.
\<close>

record vaoObj =
  vao :: "real list"
  count :: real
  indexed :: bool

definition makeVAO :: "real list \<Rightarrow> vaoObj" where
  "makeVAO verts = \<lparr> vao = verts, count = real (length verts) / 2, indexed = False \<rparr>"

text \<open>
  The loop of \<^verbatim>\<open>makePolygonVAO\<close>, with the loop variable \<open>i\<close> and the array \<open>verts\<close> as
  arguments. \<open>segments\<close> is a number of vertices: the call sites pass 3, 4, 96 and 6.
\<close>

function makePolygonVAO_loop :: "nat \<Rightarrow> nat \<Rightarrow> real list \<Rightarrow> real list" where
  "makePolygonVAO_loop segments i verts =
     (if i < segments
      then (let t = (real i / real segments) * pi * 2
            in makePolygonVAO_loop segments (Suc i) (verts @ [cos t, sin t]))
      else verts)"
  by pat_completeness auto
termination
  by (relation "measure (\<lambda>(segments, i, verts). segments - i)") auto

definition makePolygonVAO :: "nat \<Rightarrow> vaoObj" where
  "makePolygonVAO segments = makeVAO (makePolygonVAO_loop segments 0 [])"

text \<open>
  What \<^verbatim>\<open>gl.vertexAttribPointer(0, 2, gl.FLOAT, false, 0, 0)\<close> makes of the buffer: one
  vertex for every two floats.
\<close>

fun vertices :: "real list \<Rightarrow> (real \<times> real) list" where
  "vertices (x # y # rest) = (x, y) # vertices rest"
| "vertices rest = []"

text \<open>
  \<^verbatim>\<open>gl.TRIANGLE_FAN\<close>: the first vertex is a hub; each new vertex makes a triangle with
  the previous vertex and the hub.
\<close>

fun triangle_fan :: "'a list \<Rightarrow> ('a \<times> 'a \<times> 'a) list" where
  "triangle_fan (hub # a # b # rest) = (hub, a, b) # triangle_fan (hub # b # rest)"
| "triangle_fan vs = []"


section \<open>Central app state\<close>

datatype cam_mode = Ortho | Persp

text \<open>
  The fields of the \<^verbatim>\<open>state\<close> object (\<open>dirty\<close> and \<open>raf\<close> are \<^verbatim>\<open>_dirty\<close> and \<^verbatim>\<open>_raf\<close>;
  \<open>uniforms\<close> says whether \<^verbatim>\<open>state.uniforms\<close> is set; \<open>geo\<close> is the geometry cache),
  followed by what the code reaches through the browser and the GL context: the size of
  the canvas, the value last uploaded to the uniform \<^verbatim>\<open>uViewProj\<close> (\<open>None\<close> before the
  first upload and when the matrix is not finite), the animation-frame callbacks
  requested and not yet run or cancelled, the handle that \<^verbatim>\<open>requestAnimationFrame\<close>
  returned last, the draw commands submitted so far, and the number of render passes
  completed so far.
\<close>

datatype gl_mode = POINTS | LINES | LINE_LOOP | TRIANGLE_FAN

datatype gl_call = DrawElements gl_mode real | DrawArrays gl_mode real

record state =
  mode :: cam_mode
  cx :: real
  cy :: real
  cz :: real
  ang :: real
  zoom :: real
  fovDeg :: real
  near :: real
  far :: real
  uniforms :: bool
  geo :: "string \<rightharpoonup> vaoObj"
  dirty :: bool
  raf :: nat
  canvas_width :: nat
  canvas_height :: nat
  uViewProj :: "mat4 option"
  raf_callbacks :: "nat list"
  raf_handle :: nat
  draw_log :: "gl_call list"
  renders :: nat

definition init_state :: "nat \<Rightarrow> nat \<Rightarrow> state" where
  "init_state w h =
     \<lparr> mode = Ortho, cx = 0, cy = 0, cz = 3, ang = 0, zoom = 1,
       fovDeg = 60, near = 0.01, far = 100,
       uniforms = False, geo = Map.empty,
       dirty = True, raf = 0,
       canvas_width = w, canvas_height = h, uViewProj = None,
       raf_callbacks = [], raf_handle = 0, draw_log = [], renders = 0 \<rparr>"


section \<open>One-shot render scheduler\<close>

text \<open>
  \<^verbatim>\<open>requestAnimationFrame\<close> queues the callback and returns its handle, the browser's
  counter increased by one, so a handle is never zero. \<^verbatim>\<open>cancelAnimationFrame\<close>
  removes the callback with the given handle. The only callback ever passed is
  \<^verbatim>\<open>frame\<close>.
\<close>

definition requestAnimationFrame :: "state \<Rightarrow> nat \<times> state" where
  "requestAnimationFrame s =
     (let h = raf_handle s + 1
      in (h, s\<lparr> raf_handle := h, raf_callbacks := raf_callbacks s @ [h] \<rparr>))"

definition cancelAnimationFrame :: "nat \<Rightarrow> state \<Rightarrow> state" where
  "cancelAnimationFrame h s = s\<lparr> raf_callbacks := removeAll h (raf_callbacks s) \<rparr>"

text \<open>
  A function of the page either returns or throws; what it wrote to the state before
  throwing stays written. The only exception in reach is the \<^verbatim>\<open>TypeError\<close> of reading a
  property of \<^verbatim>\<open>null\<close> or \<^verbatim>\<open>undefined\<close>.
\<close>

datatype js_error = TypeError

datatype outcome = Normal state | Thrown js_error state

fun state_of :: "outcome \<Rightarrow> state" where
  "state_of (Normal s) = s"
| "state_of (Thrown e s) = s"

definition and_then :: "outcome \<Rightarrow> (state \<Rightarrow> outcome) \<Rightarrow> outcome" where
  "and_then r f = (case r of Normal s \<Rightarrow> f s | Thrown e s \<Rightarrow> Thrown e s)"

text \<open>
  \<^verbatim>\<open>draw\<close>: the first argument is the \<^verbatim>\<open>vaoObj\<close> passed, \<open>None\<close> when the entry of the
  geometry cache is \<^verbatim>\<open>undefined\<close>. Reading \<^verbatim>\<open>uniforms.color\<close> throws while
  \<^verbatim>\<open>state.uniforms\<close> is \<^verbatim>\<open>null\<close>, and reading \<^verbatim>\<open>vaoObj.vao\<close> throws for an
  \<^verbatim>\<open>undefined\<close> descriptor. The values written to the uniforms (colour, model matrix,
  point size) stay in the GL context and are not recorded; the draw command is.
\<close>

definition draw :: "vaoObj option \<Rightarrow> gl_mode \<Rightarrow> state \<Rightarrow> outcome" where
  "draw vaoObj m s =
     (if \<not> uniforms s then Thrown TypeError s
      else case vaoObj of
        None \<Rightarrow> Thrown TypeError s
      | Some v \<Rightarrow>
          Normal (s\<lparr> draw_log := draw_log s @
            [if indexed v then DrawElements m (count v) else DrawArrays m (count v)] \<rparr>))"

text \<open>The loop of \<^verbatim>\<open>render\<close> over the 500 background points, with the loop variable
  as an argument.\<close>

function render_points :: "nat \<Rightarrow> state \<Rightarrow> outcome" where
  "render_points i s =
     (if i < 500
      then (case draw (geo s ''point'') POINTS s of
              Normal s' \<Rightarrow> render_points (Suc i) s'
            | Thrown e s' \<Rightarrow> Thrown e s')
      else Normal s)"
  by pat_completeness auto
termination
  by (relation "measure (\<lambda>(i, s). 500 - i)") auto

text \<open>
  \<^verbatim>\<open>render\<close>: the sun, the four orbit rings, the four planets and the background
  points, in this order; the random placement of planets and points goes into the
  model matrices only. A pass that runs to its end is counted.
\<close>

definition render :: "state \<Rightarrow> outcome" where
  "render s =
     and_then (draw (geo s ''circle'') TRIANGLE_FAN s) (\<lambda>s.
     and_then (draw (geo s ''circle'') LINE_LOOP s) (\<lambda>s.
     and_then (draw (geo s ''circle'') LINE_LOOP s) (\<lambda>s.
     and_then (draw (geo s ''circle'') LINE_LOOP s) (\<lambda>s.
     and_then (draw (geo s ''circle'') LINE_LOOP s) (\<lambda>s.
     and_then (draw (geo s ''circle'') TRIANGLE_FAN s) (\<lambda>s.
     and_then (draw (geo s ''circle'') TRIANGLE_FAN s) (\<lambda>s.
     and_then (draw (geo s ''circle'') TRIANGLE_FAN s) (\<lambda>s.
     and_then (draw (geo s ''circle'') TRIANGLE_FAN s) (\<lambda>s.
     and_then (render_points 0 s) (\<lambda>s.
     Normal (s\<lparr> renders := renders s + 1 \<rparr>)))))))))))"

definition markDirty :: "state \<Rightarrow> state" where
  "markDirty s =
     (let s1 = s\<lparr> dirty := True \<rparr>
      in if raf s1 = 0
         then (case requestAnimationFrame s1 of (h, s2) \<Rightarrow> s2\<lparr> raf := h \<rparr>)
         else s1)"

definition frame :: "state \<Rightarrow> outcome" where
  "frame s =
     (let s1 = s\<lparr> raf := 0 \<rparr>
      in if dirty s1
         then and_then (render s1) (\<lambda>s2. Normal (s2\<lparr> dirty := False \<rparr>))
         else Normal s1)"

text \<open>
  The browser runs the oldest requested callback, which leaves the queue; with no
  callback requested, nothing runs. An exception that leaves the callback is
  reported, and the page goes on in the state the callback left.
\<close>

definition run_callback :: "state \<Rightarrow> state" where
  "run_callback s =
     (case raf_callbacks s of
        [] \<Rightarrow> s
      | h # hs \<Rightarrow> state_of (frame (s\<lparr> raf_callbacks := hs \<rparr>)))"

datatype sched_step = MarkDirty | FrameCallback

fun sched_apply :: "sched_step \<Rightarrow> state \<Rightarrow> state" where
  "sched_apply MarkDirty s = markDirty s"
| "sched_apply FrameCallback s = run_callback s"

definition sched_run :: "sched_step list \<Rightarrow> state \<Rightarrow> state" where
  "sched_run steps s = fold sched_apply steps s"


section \<open>Camera and view-projection\<close>

text \<open>
  The locals of \<^verbatim>\<open>computeViewProj\<close>, each as a function of the state: \<open>aspect\<close>,
  \<open>halfH\<close>, the projection \<open>P\<close> and the view \<open>V\<close>.
\<close>

definition computeViewProj_aspect :: "state \<Rightarrow> real option" where
  "computeViewProj_aspect s = fdiv (real (canvas_width s)) (real (canvas_height s))"

definition computeViewProj_halfH :: "state \<Rightarrow> real option" where
  "computeViewProj_halfH s = fdiv 1.0 (max 0.001 (zoom s))"

definition computeViewProj_P :: "state \<Rightarrow> mat4 option" where
  "computeViewProj_P s = do {
     aspect \<leftarrow> computeViewProj_aspect s;
     if mode s = Persp
     then mat4Perspective (fovDeg s) aspect (near s) (far s)
     else do {
       halfH \<leftarrow> computeViewProj_halfH s;
       let halfW = halfH * aspect;
       mat4Ortho (- halfW) halfW (- halfH) halfH (- 10) 10
     }
   }"

definition computeViewProj_V :: "state \<Rightarrow> mat4" where
  "computeViewProj_V s = mat4View (cx s) (cy s) (cz s) (ang s)"

definition computeViewProj :: "state \<Rightarrow> mat4 option" where
  "computeViewProj s = do {
     P \<leftarrow> computeViewProj_P s;
     let V = computeViewProj_V s;
     Some (mat4Mul P V)
   }"

text \<open>The later of the two declarations of \<^verbatim>\<open>uploadViewProj\<close>, the guarded one, is the
  one in force.\<close>

definition uploadViewProj :: "state \<Rightarrow> state" where
  "uploadViewProj s =
     (if \<not> uniforms s then s else s\<lparr> uViewProj := computeViewProj s \<rparr>)"


section \<open>UI wiring\<close>

definition clamp :: "real \<Rightarrow> real \<Rightarrow> real \<Rightarrow> real" where
  "clamp v lo hi = min hi (max lo v)"

text \<open>
  \<^verbatim>\<open>push\<close>, the closure that \<^verbatim>\<open>bindControl\<close> attaches to both inputs of a control and
  calls once itself. Mirroring the value into the two inputs, and \<^verbatim>\<open>updateUIState\<close>
  in the handlers below, write only to the page and are left out.
\<close>

definition bindControl_push :: "(real \<Rightarrow> state \<Rightarrow> state) \<Rightarrow> real \<Rightarrow> state \<Rightarrow> state" where
  "bindControl_push apply v s = markDirty (uploadViewProj (apply v s))"

definition apply_cx :: "real \<Rightarrow> state \<Rightarrow> state" where
  "apply_cx v s = s\<lparr> cx := v \<rparr>"

definition apply_cy :: "real \<Rightarrow> state \<Rightarrow> state" where
  "apply_cy v s = s\<lparr> cy := v \<rparr>"

definition apply_ang :: "real \<Rightarrow> state \<Rightarrow> state" where
  "apply_ang v s = s\<lparr> ang := (v * pi) / 180 \<rparr>"

definition apply_zoom :: "real \<Rightarrow> state \<Rightarrow> state" where
  "apply_zoom v s = s\<lparr> zoom := max 0.001 v \<rparr>"

definition apply_fov :: "real \<Rightarrow> state \<Rightarrow> state" where
  "apply_fov v s = s\<lparr> fovDeg := clamp v 1 179 \<rparr>"

definition apply_camz :: "real \<Rightarrow> state \<Rightarrow> state" where
  "apply_camz v s = s\<lparr> cz := max 0.05 v \<rparr>"

text \<open>The change handlers of the two mode buttons; the argument is the button's
  \<^verbatim>\<open>checked\<close>.\<close>

definition modeOrtho_change :: "bool \<Rightarrow> state \<Rightarrow> state" where
  "modeOrtho_change checked s =
     (if checked then markDirty (uploadViewProj (s\<lparr> mode := Ortho \<rparr>)) else s)"

definition modePersp_change :: "bool \<Rightarrow> state \<Rightarrow> state" where
  "modePersp_change checked s =
     (if checked then markDirty (uploadViewProj (s\<lparr> mode := Persp \<rparr>)) else s)"

text \<open>The click handler of the reset button; the argument is \<^verbatim>\<open>modeOrtho.checked\<close>.\<close>

definition resetBtn_click :: "bool \<Rightarrow> state \<Rightarrow> state" where
  "resetBtn_click orthoChecked s =
     markDirty (uploadViewProj
       (s\<lparr> cx := 0, cy := 0, ang := 0,
           mode := (if orthoChecked then Ortho else Persp),
           zoom := 1.0,
           fovDeg := 60, cz := 3.0 \<rparr>))"

text \<open>\<^verbatim>\<open>resize\<close>; the arguments are the width and height computed from the window.\<close>

definition resize :: "nat \<Rightarrow> nat \<Rightarrow> state \<Rightarrow> state" where
  "resize w h s =
     (if canvas_width s \<noteq> w \<or> canvas_height s \<noteq> h
      then markDirty (uploadViewProj (s\<lparr> canvas_width := w, canvas_height := h \<rparr>))
      else s)"

text \<open>Start-up and context restoration; the shaders are taken to compile and link.\<close>

definition initProgram :: "state \<Rightarrow> state" where
  "initProgram s = s\<lparr> uniforms := True \<rparr>"

definition initGeometry :: "state \<Rightarrow> state" where
  "initGeometry s =
     s\<lparr> geo := (geo s)(''point'' \<mapsto> makeVAO [0, 0],
                      ''line'' \<mapsto> makeVAO [- 0.5, 0, 0.5, 0],
                      ''tri'' \<mapsto> makePolygonVAO 3,
                      ''square'' \<mapsto> makePolygonVAO 4,
                      ''circle'' \<mapsto> makePolygonVAO 96,
                      ''hexagon'' \<mapsto> makePolygonVAO 6) \<rparr>"

definition initGL :: "state \<Rightarrow> state" where
  "initGL s = markDirty (uploadViewProj (initGeometry (initProgram s)))"

definition webglcontextlost :: "state \<Rightarrow> state" where
  "webglcontextlost s = cancelAnimationFrame (raf s) s"

definition webglcontextrestored :: "state \<Rightarrow> state" where
  "webglcontextrestored s = markDirty (initGL s)"

text \<open>Everything that can happen to the running page: an input event of one of the six
  controls, a change of a mode button, a click on reset, a resize, start-up, loss
  and restoration of the context, and the browser running a requested callback.\<close>

datatype event =
    InputCx real | InputCy real | InputAng real
  | InputZoom real | InputFov real | InputCamz real
  | ModeOrthoChange bool | ModePerspChange bool
  | ResetClick bool
  | Resize nat nat
  | InitGL | ContextLost | ContextRestored
  | AnimationFrame

fun handle :: "event \<Rightarrow> state \<Rightarrow> state" where
  "handle (InputCx v) s = bindControl_push apply_cx v s"
| "handle (InputCy v) s = bindControl_push apply_cy v s"
| "handle (InputAng v) s = bindControl_push apply_ang v s"
| "handle (InputZoom v) s = bindControl_push apply_zoom v s"
| "handle (InputFov v) s = bindControl_push apply_fov v s"
| "handle (InputCamz v) s = bindControl_push apply_camz v s"
| "handle (ModeOrthoChange b) s = modeOrtho_change b s"
| "handle (ModePerspChange b) s = modePersp_change b s"
| "handle (ResetClick b) s = resetBtn_click b s"
| "handle (Resize w h) s = resize w h s"
| "handle InitGL s = initGL s"
| "handle ContextLost s = webglcontextlost s"
| "handle ContextRestored s = webglcontextrestored s"
| "handle AnimationFrame s = run_callback s"

definition run :: "event list \<Rightarrow> state \<Rightarrow> state" where
  "run events s = fold handle events s"


section \<open>Auxiliary definitions for the proofs\<close>

text \<open>
  The fan of the specification's \<^verbatim>\<open>buildPolygon\<close>, in its words: \<open>segments\<close> triangles,
  each with one vertex at the origin and two on the unit circle.
\<close>

definition on_unit_circle :: "real \<times> real \<Rightarrow> bool" where
  "on_unit_circle v = ((fst v)\<^sup>2 + (snd v)\<^sup>2 = 1)"

definition spec_buildPolygon_fan :: "nat \<Rightarrow> (real \<times> real) list \<Rightarrow> bool" where
  "spec_buildPolygon_fan segments vs =
     (length (triangle_fan vs) = segments \<and>
      list_all (\<lambda>t. fst t = (0, 0) \<and> on_unit_circle (fst (snd t)) \<and>
                     on_unit_circle (snd (snd t))) (triangle_fan vs))"

text \<open>
  What \<^verbatim>\<open>initProgram\<close> and \<^verbatim>\<open>initGeometry\<close> establish and \<^verbatim>\<open>render\<close> relies on: the
  uniforms are resolved and the two descriptors that the scene draws are cached.
\<close>

definition render_ready :: "state \<Rightarrow> bool" where
  "render_ready s = (uniforms s \<and> geo s ''circle'' \<noteq> None \<and> geo s ''point'' \<noteq> None)"

text \<open>The draw commands of one render pass, for the cached circle and point.\<close>

definition scene_calls :: "vaoObj \<Rightarrow> vaoObj \<Rightarrow> gl_call list" where
  "scene_calls circle point =
     (let call = (\<lambda>v m. if indexed v then DrawElements m (count v) else DrawArrays m (count v))
      in [call circle TRIANGLE_FAN,
          call circle LINE_LOOP, call circle LINE_LOOP, call circle LINE_LOOP,
          call circle LINE_LOOP,
          call circle TRIANGLE_FAN, call circle TRIANGLE_FAN, call circle TRIANGLE_FAN,
          call circle TRIANGLE_FAN]
         @ replicate 500 (call point POINTS))"

text \<open>
  The invariant of the scheduler: either no request is recorded and no callback is
  queued, or the one queued callback is the recorded one and a redraw is pending.
\<close>

definition sched_inv :: "state \<Rightarrow> bool" where
  "sched_inv s =
     (if raf s = 0 then raf_callbacks s = []
      else raf_callbacks s = [raf s] \<and> dirty s)"

text \<open>The invariant of the camera: the ranges the controls clamp to, and the two
  planes, which nothing writes.\<close>

definition cam_inv :: "state \<Rightarrow> bool" where
  "cam_inv s =
     (0.05 \<le> cz s \<and> 1 \<le> fovDeg s \<and> fovDeg s \<le> 179 \<and> 0.001 \<le> zoom s \<and>
      near s = 0.01 \<and> far s = 100)"

text \<open>The first cell of the projection matrix, multiplied by the aspect ratio.\<close>

definition proj_scale :: "state \<Rightarrow> real" where
  "proj_scale s =
     (if mode s = Persp
      then 1 / (sin (fovDeg s * pi / 180 / 2) / cos (fovDeg s * pi / 180 / 2))
      else max 0.001 (zoom s))"


section \<open>Facts about the matrix functions\<close>

lemma upt4: "[0..<4] = [0, 1, 2, 3]"
  by (simp add: upt_rec)

lemma upt16: "[0..<16] = [0, 1, 2, 3, 4, 5, 6, 7, 8, 9, 10, 11, 12, 13, 14, 15]"
  by (simp add: upt_rec)

lemma replicate16: "replicate 16 (x::'a) = [x,x,x,x, x,x,x,x, x,x,x,x, x,x,x,x]"
  by (simp add: numeral_eq_Suc)

lemma mat4Identity_cells: "mat4Identity = [1,0,0,0, 0,1,0,0, 0,0,1,0, 0,0,0,1]"
  by (simp add: mat4Identity_def replicate16 numeral_eq_Suc)

lemma mat4Translate_cells:
  "mat4Translate tx ty tz = [1,0,0,0, 0,1,0,0, 0,0,1,0, tx,ty,tz,1]"
  by (simp add: mat4Translate_def mat4Identity_cells numeral_eq_Suc)

lemma mat4Scale_cells:
  "mat4Scale sx sy sz = [sx,0,0,0, 0,sy,0,0, 0,0,sz,0, 0,0,0,1]"
  by (simp add: mat4Scale_def mat4Identity_cells numeral_eq_Suc)

lemma mat4RotateZ_cells:
  "mat4RotateZ a = [cos a, sin a, 0, 0, - sin a, cos a, 0, 0, 0,0,1,0, 0,0,0,1]"
  by (simp add: mat4RotateZ_def Let_def mat4Identity_cells numeral_eq_Suc)

lemma mat4Mul_cells:
  "mat4Mul B A =
    [B!0 * A!0 + B!4 * A!1 + B!8 * A!2 + B!12 * A!3,
     B!1 * A!0 + B!5 * A!1 + B!9 * A!2 + B!13 * A!3,
     B!2 * A!0 + B!6 * A!1 + B!10 * A!2 + B!14 * A!3,
     B!3 * A!0 + B!7 * A!1 + B!11 * A!2 + B!15 * A!3,
     B!0 * A!4 + B!4 * A!5 + B!8 * A!6 + B!12 * A!7,
     B!1 * A!4 + B!5 * A!5 + B!9 * A!6 + B!13 * A!7,
     B!2 * A!4 + B!6 * A!5 + B!10 * A!6 + B!14 * A!7,
     B!3 * A!4 + B!7 * A!5 + B!11 * A!6 + B!15 * A!7,
     B!0 * A!8 + B!4 * A!9 + B!8 * A!10 + B!12 * A!11,
     B!1 * A!8 + B!5 * A!9 + B!9 * A!10 + B!13 * A!11,
     B!2 * A!8 + B!6 * A!9 + B!10 * A!10 + B!14 * A!11,
     B!3 * A!8 + B!7 * A!9 + B!11 * A!10 + B!15 * A!11,
     B!0 * A!12 + B!4 * A!13 + B!8 * A!14 + B!12 * A!15,
     B!1 * A!12 + B!5 * A!13 + B!9 * A!14 + B!13 * A!15,
     B!2 * A!12 + B!6 * A!13 + B!10 * A!14 + B!14 * A!15,
     B!3 * A!12 + B!7 * A!13 + B!11 * A!14 + B!15 * A!15]"
  unfolding mat4Mul_def upt4 replicate16 idx4_def
  by (simp add: numeral_eq_Suc)

lemma mat4Mul_is_mat_product: "mat4Mul B A = mat_product B A"
  unfolding mat4Mul_cells mat_product_def mat_cell_def upt4 upt16
  by (simp add: numeral_2_eq_2 [symmetric])

lemma sixteen_cells:
  "length (M::'a list) = 16 \<Longrightarrow>
     \<exists>a0 a1 a2 a3 a4 a5 a6 a7 a8 a9 a10 a11 a12 a13 a14 a15.
       M = [a0,a1,a2,a3, a4,a5,a6,a7, a8,a9,a10,a11, a12,a13,a14,a15]"
  by (auto simp add: numeral_eq_Suc length_Suc_conv)

lemma mat4Mul_identity_left:
  assumes "length M = 16"
  shows "mat4Mul mat4Identity M = M"
proof -
  obtain a0 a1 a2 a3 a4 a5 a6 a7 a8 a9 a10 a11 a12 a13 a14 a15 where
    M: "M = [a0,a1,a2,a3, a4,a5,a6,a7, a8,a9,a10,a11, a12,a13,a14,a15]"
    using sixteen_cells [of M] assms by auto
  show ?thesis
    unfolding M mat4Mul_cells mat4Identity_cells by simp
qed

lemma mat4Mul_identity_right:
  assumes "length M = 16"
  shows "mat4Mul M mat4Identity = M"
proof -
  obtain a0 a1 a2 a3 a4 a5 a6 a7 a8 a9 a10 a11 a12 a13 a14 a15 where
    M: "M = [a0,a1,a2,a3, a4,a5,a6,a7, a8,a9,a10,a11, a12,a13,a14,a15]"
    using sixteen_cells [of M] assms by auto
  show ?thesis
    unfolding M mat4Mul_cells mat4Identity_cells by simp
qed


lemma mat4TRS_cells:
  "mat4TRS tx ty tz a sx sy sz =
     [sx * cos a, sx * sin a, 0, 0,
      - (sy * sin a), sy * cos a, 0, 0,
      0, 0, sz, 0,
      tx, ty, tz, 1]"
  unfolding mat4TRS_def mat4Mul_cells mat4Translate_cells mat4RotateZ_cells mat4Scale_cells
  by (simp add: mult.commute)

lemma mat4MulVec_mat4Mul:
  "mat4MulVec (mat4Mul B A) v = mat4MulVec B (mat4MulVec A v)"
  unfolding mat4Mul_cells
  by (cases v) (simp add: mat4MulVec_def idx4_def numeral_2_eq_2 [symmetric] algebra_simps)

lemma mat4Ortho_cells:
  "r \<noteq> l \<Longrightarrow> t \<noteq> b \<Longrightarrow> f \<noteq> n \<Longrightarrow>
   mat4Ortho l r b t n f =
     Some [2 / (r - l), 0, 0, 0,
           0, 2 / (t - b), 0, 0,
           0, 0, - 2 / (f - n), 0,
           - (r + l) / (r - l), - (t + b) / (t - b), - (f + n) / (f - n), 1]"
  by (simp add: mat4Ortho_def fdiv_def replicate16 numeral_eq_Suc)

lemma mat4Perspective_cells:
  "cos (fd * pi / 180 / 2) \<noteq> 0 \<Longrightarrow> sin (fd * pi / 180 / 2) \<noteq> 0 \<Longrightarrow>
   n \<noteq> f \<Longrightarrow> aspect \<noteq> 0 \<Longrightarrow>
   mat4Perspective fd aspect n f =
     Some [1 / (sin (fd * pi / 180 / 2) / cos (fd * pi / 180 / 2)) / aspect, 0, 0, 0,
           0, 1 / (sin (fd * pi / 180 / 2) / cos (fd * pi / 180 / 2)), 0, 0,
           0, 0, (f + n) * (1 / (n - f)), - 1,
           0, 0, (2 * f * n) * (1 / (n - f)), 0]"
  by (simp add: mat4Perspective_def ftan_def fdiv_def Let_def replicate16 numeral_eq_Suc)

lemma mat4View_cells:
  "mat4View px py pz a =
     [cos a, - sin a, 0, 0,
      sin a, cos a, 0, 0,
      0, 0, 1, 0,
      - (cos a * px) - sin a * py, sin a * px - cos a * py, - pz, 1]"
  unfolding mat4View_def mat4Mul_cells mat4Translate_cells mat4RotateZ_cells
  by (simp add: algebra_simps)


section \<open>Facts about the geometry\<close>

declare makePolygonVAO_loop.simps [simp del]

lemma makePolygonVAO_loop_eq:
  "makePolygonVAO_loop n i verts =
     verts @ concat (map (\<lambda>k. [cos (real k / real n * pi * 2), sin (real k / real n * pi * 2)]) [i..<n])"
proof (induction n i verts rule: makePolygonVAO_loop.induct)
  case (1 segments i verts)
  show ?case
  proof (cases "i < segments")
    case True
    then show ?thesis
      using "1.IH" [OF True refl]
      by (subst makePolygonVAO_loop.simps) (simp add: upt_conv_Cons Let_def)
  next
    case False
    then show ?thesis
      by (subst makePolygonVAO_loop.simps) simp
  qed
qed

lemma vertices_concat_pairs:
  "vertices (concat (map (\<lambda>k. [f k, g k]) ks)) = map (\<lambda>k. (f k, g k)) ks"
  by (induction ks) simp_all

lemma length_concat_pairs:
  "length (concat (map (\<lambda>k. [f k, g k]) ks)) = 2 * length ks"
  by (induction ks) simp_all

lemma makePolygonVAO_vertices:
  "vertices (vao (makePolygonVAO n)) =
     map (\<lambda>k. (cos (real k / real n * pi * 2), sin (real k / real n * pi * 2))) [0..<n]"
  by (simp add: makePolygonVAO_def makeVAO_def makePolygonVAO_loop_eq vertices_concat_pairs)

lemma makePolygonVAO_length: "length (vao (makePolygonVAO n)) = 2 * n"
  by (simp add: makePolygonVAO_def makeVAO_def makePolygonVAO_loop_eq length_concat_pairs)

lemma makePolygonVAO_count: "count (makePolygonVAO n) = real n"
  by (simp add: makePolygonVAO_def makeVAO_def makePolygonVAO_loop_eq length_concat_pairs)

lemma length_triangle_fan: "length (triangle_fan vs) = length vs - 2"
  by (induction vs rule: triangle_fan.induct) simp_all

lemma triangle_fan_hub:
  "list_all (\<lambda>t. fst t = hd vs) (triangle_fan vs)"
  by (induction vs rule: triangle_fan.induct) simp_all

lemma cos_sin_three_halves_pi: "cos (pi * 3 / 2) = 0 \<and> sin (pi * 3 / 2) = - 1"
proof -
  have "pi * 3 / 2 = 3 / 2 * pi"
    by simp
  then show ?thesis
    by (simp only: cos_3over2_pi sin_3over2_pi)
qed

lemma square_vertices:
  "vertices (vao (makePolygonVAO 4)) = [(1, 0), (0, 1), (- 1, 0), (0, - 1)]"
  by (simp add: makePolygonVAO_vertices upt_rec cos_sin_three_halves_pi)

lemma makePolygonVAO_on_circle: "list_all on_unit_circle (vertices (vao (makePolygonVAO n)))"
  by (simp add: makePolygonVAO_vertices list_all_iff on_unit_circle_def)

lemma makePolygonVAO_no_origin: "(0, 0) \<notin> set (vertices (vao (makePolygonVAO n)))"
proof
  assume "(0, 0) \<in> set (vertices (vao (makePolygonVAO n)))"
  then obtain k where "cos (real k / real n * pi * 2) = 0" "sin (real k / real n * pi * 2) = 0"
    by (auto simp add: makePolygonVAO_vertices)
  then show False
    using sin_cos_squared_add [of "real k / real n * pi * 2"] by simp
qed


section \<open>Facts about rendering and the scheduler\<close>

declare render_points.simps [simp del]

lemma render_ready_draw:
  "render_ready s \<Longrightarrow> geo s name = Some v \<Longrightarrow>
   draw (geo s name) m s =
     Normal (s\<lparr> draw_log := draw_log s @
       [if indexed v then DrawElements m (count v) else DrawArrays m (count v)] \<rparr>)"
  by (simp add: draw_def render_ready_def)

lemma render_points_ready:
  "render_ready s \<Longrightarrow> geo s ''point'' = Some v \<Longrightarrow> i \<le> 500 \<Longrightarrow>
   render_points i s =
     Normal (s\<lparr> draw_log := draw_log s @
       replicate (500 - i)
         (if indexed v then DrawElements POINTS (count v) else DrawArrays POINTS (count v)) \<rparr>)"
proof (induction i s rule: render_points.induct)
  case (1 i s)
  let ?c = "if indexed v then DrawElements POINTS (count v) else DrawArrays POINTS (count v)"
  show ?case
  proof (cases "i < 500")
    case True
    let ?s' = "s\<lparr> draw_log := draw_log s @ [?c] \<rparr>"
    have d: "draw (geo s ''point'') POINTS s = Normal ?s'"
      by (rule render_ready_draw [OF "1.prems"(1,2)])
    have r: "render_ready ?s'" "geo ?s' ''point'' = Some v" "Suc i \<le> 500"
      using "1.prems" True by (simp_all add: render_ready_def)
    have "render_points (Suc i) ?s' =
        Normal (?s'\<lparr> draw_log := draw_log ?s' @ replicate (500 - Suc i) ?c \<rparr>)"
      using "1.IH" [OF True d r] .
    moreover have "500 - i = Suc (500 - Suc i)"
      using True by simp
    ultimately show ?thesis
      using True d by (subst render_points.simps) (simp add: replicate_app_Cons_same)
  next
    case False
    then show ?thesis
      using "1.prems" by (subst render_points.simps) simp
  qed
qed

lemma render_ready_render:
  assumes "render_ready s" and "geo s ''circle'' = Some c" and "geo s ''point'' = Some p"
  shows "render s =
     Normal (s\<lparr> draw_log := draw_log s @ scene_calls c p, renders := renders s + 1 \<rparr>)"
  using assms
  by (simp add: render_def and_then_def draw_def render_ready_def render_points_ready
      scene_calls_def Let_def)

lemma render_not_ready:
  "\<not> uniforms s \<Longrightarrow> render s = Thrown TypeError s"
  by (simp add: render_def and_then_def draw_def)

lemma length_scene_calls: "length (scene_calls c p) = 509"
  by (simp add: scene_calls_def Let_def)

lemma frame_ready:
  assumes "render_ready s" and "geo s ''circle'' = Some c" and "geo s ''point'' = Some p"
  shows "frame s =
     Normal (if dirty s
             then s\<lparr> raf := 0, draw_log := draw_log s @ scene_calls c p,
                     renders := renders s + 1, dirty := False \<rparr>
             else s\<lparr> raf := 0 \<rparr>)"
proof -
  have "render_ready (s\<lparr> raf := 0 \<rparr>)" "geo (s\<lparr> raf := 0 \<rparr>) ''circle'' = Some c"
      "geo (s\<lparr> raf := 0 \<rparr>) ''point'' = Some p"
    using assms by (simp_all add: render_ready_def)
  then have "render (s\<lparr> raf := 0 \<rparr>) =
      Normal (s\<lparr> raf := 0, draw_log := draw_log s @ scene_calls c p, renders := renders s + 1 \<rparr>)"
    using render_ready_render [of "s\<lparr> raf := 0 \<rparr>" c p] by simp
  then show ?thesis
    by (simp add: frame_def Let_def and_then_def)
qed

lemma frame_clean: "\<not> dirty s \<Longrightarrow> frame s = Normal (s\<lparr> raf := 0 \<rparr>)"
  by (simp add: frame_def Let_def)

lemma frame_not_ready:
  "\<not> uniforms s \<Longrightarrow> dirty s \<Longrightarrow> frame s = Thrown TypeError (s\<lparr> raf := 0 \<rparr>)"
  by (simp add: frame_def Let_def and_then_def render_not_ready)

lemma draw_keeps:
  assumes "\<And>t log. f (t\<lparr> draw_log := log \<rparr>) = f t"
  shows "f (state_of (draw v m s)) = f s"
  using assms by (simp add: draw_def split: option.splits)

lemma and_then_keeps:
  assumes "f (state_of r) = a" and "\<And>t. f t = a \<Longrightarrow> f (state_of (g t)) = a"
  shows "f (state_of (and_then r g)) = a"
  using assms by (cases r) (simp_all add: and_then_def)

lemma render_points_keeps:
  assumes "\<And>t log. f (t\<lparr> draw_log := log \<rparr>) = f t"
  shows "f (state_of (render_points i s)) = f s"
proof (induction i s rule: render_points.induct)
  case (1 i s)
  show ?case
  proof (cases "i < 500")
    case True
    have d: "f (state_of (draw (geo s ''point'') POINTS s)) = f s"
      using assms by (rule draw_keeps)
    show ?thesis
    proof (cases "draw (geo s ''point'') POINTS s")
      case (Normal s')
      then show ?thesis
        using True d "1.IH" [OF True Normal] by (subst render_points.simps) simp
    next
      case (Thrown e s')
      then show ?thesis
        using True d by (subst render_points.simps) simp
    qed
  next
    case False
    then show ?thesis
      by (subst render_points.simps) simp
  qed
qed

lemma render_keeps:
  assumes l: "\<And>t log. f (t\<lparr> draw_log := log \<rparr>) = f t"
    and r: "\<And>t n. f (t\<lparr> renders := n \<rparr>) = f t"
  shows "f (state_of (render s)) = f s"
  unfolding render_def
  by (intro and_then_keeps [where f = f]) (simp_all add: draw_keeps [of f, OF l] render_points_keeps [of f, OF l] r)

lemma frame_keeps:
  assumes l: "\<And>t log. f (t\<lparr> draw_log := log \<rparr>) = f t"
    and r: "\<And>t n. f (t\<lparr> renders := n \<rparr>) = f t"
    and d: "\<And>t b. f (t\<lparr> dirty := b \<rparr>) = f t"
    and a: "\<And>t n. f (t\<lparr> raf := n \<rparr>) = f t"
  shows "f (state_of (frame s)) = f s"
proof (cases "dirty s")
  case True
  have "f (state_of (and_then (render (s\<lparr> raf := 0 \<rparr>)) (\<lambda>s2. Normal (s2\<lparr> dirty := False \<rparr>)))) =
      f (s\<lparr> raf := 0 \<rparr>)"
    by (intro and_then_keeps [where f = f]) (simp_all add: render_keeps [of f, OF l r] d)
  then show ?thesis
    using True by (simp add: frame_def Let_def a)
next
  case False
  then show ?thesis
    by (simp add: frame_clean a)
qed

lemma run_callback_keeps:
  assumes l: "\<And>t log. f (t\<lparr> draw_log := log \<rparr>) = f t"
    and r: "\<And>t n. f (t\<lparr> renders := n \<rparr>) = f t"
    and d: "\<And>t b. f (t\<lparr> dirty := b \<rparr>) = f t"
    and a: "\<And>t n. f (t\<lparr> raf := n \<rparr>) = f t"
    and c: "\<And>t hs. f (t\<lparr> raf_callbacks := hs \<rparr>) = f t"
  shows "f (run_callback s) = f s"
  by (simp add: run_callback_def frame_keeps [of f, OF l r d a] c split: list.splits)

lemma run_callback_camera:
  "mode (run_callback s) = mode s" "cx (run_callback s) = cx s"
  "cy (run_callback s) = cy s" "cz (run_callback s) = cz s"
  "ang (run_callback s) = ang s" "zoom (run_callback s) = zoom s"
  "fovDeg (run_callback s) = fovDeg s" "near (run_callback s) = near s"
  "far (run_callback s) = far s"
  by (simp_all add: run_callback_keeps [where f = mode]
      run_callback_keeps [where f = cx]
      run_callback_keeps [where f = cy]
      run_callback_keeps [where f = cz]
      run_callback_keeps [where f = ang]
      run_callback_keeps [where f = zoom]
      run_callback_keeps [where f = fovDeg]
      run_callback_keeps [where f = near]
      run_callback_keeps [where f = far])

lemma run_callback_gl:
  "uniforms (run_callback s) = uniforms s" "geo (run_callback s) = geo s"
  by (simp_all add: run_callback_keeps [where f = uniforms] run_callback_keeps [where f = geo])

lemma run_callback_ready:
  assumes "render_ready s" and "geo s ''circle'' = Some c" and "geo s ''point'' = Some p"
  shows "run_callback s =
     (case raf_callbacks s of
        [] \<Rightarrow> s
      | h # hs \<Rightarrow>
          if dirty s
          then s\<lparr> raf_callbacks := hs, raf := 0, draw_log := draw_log s @ scene_calls c p,
                  renders := renders s + 1, dirty := False \<rparr>
          else s\<lparr> raf_callbacks := hs, raf := 0 \<rparr>)"
proof (cases "raf_callbacks s")
  case Nil
  then show ?thesis
    by (simp add: run_callback_def)
next
  case (Cons h hs)
  have "render_ready (s\<lparr> raf_callbacks := hs \<rparr>)"
      "geo (s\<lparr> raf_callbacks := hs \<rparr>) ''circle'' = Some c"
      "geo (s\<lparr> raf_callbacks := hs \<rparr>) ''point'' = Some p"
    using assms by (simp_all add: render_ready_def)
  then show ?thesis
    using Cons frame_ready [of "s\<lparr> raf_callbacks := hs \<rparr>" c p]
    by (simp add: run_callback_def)
qed

lemma render_ready_cached:
  "render_ready s \<Longrightarrow> \<exists>c p. geo s ''circle'' = Some c \<and> geo s ''point'' = Some p"
  by (auto simp add: render_ready_def)

lemma render_ready_markDirty: "render_ready s \<Longrightarrow> render_ready (markDirty s)"
  by (simp add: render_ready_def markDirty_def requestAnimationFrame_def Let_def)

lemma render_ready_run_callback: "render_ready s \<Longrightarrow> render_ready (run_callback s)"
  by (simp add: render_ready_def run_callback_gl)

lemma sched_inv_markDirty: "sched_inv s \<Longrightarrow> sched_inv (markDirty s)"
  by (simp add: sched_inv_def markDirty_def requestAnimationFrame_def Let_def split: if_splits)

lemma sched_inv_run_callback:
  assumes "render_ready s" and "sched_inv s"
  shows "sched_inv (run_callback s)"
proof -
  obtain c p where "geo s ''circle'' = Some c" "geo s ''point'' = Some p"
    using render_ready_cached [OF assms(1)] by auto
  then show ?thesis
    using assms(2) run_callback_ready [OF assms(1)]
    by (simp add: sched_inv_def split: if_splits list.splits)
qed

lemma sched_ok_apply:
  "render_ready s \<and> sched_inv s \<Longrightarrow> render_ready (sched_apply e s) \<and> sched_inv (sched_apply e s)"
  by (cases e)
    (simp_all add: sched_inv_markDirty sched_inv_run_callback render_ready_markDirty
      render_ready_run_callback)

lemma sched_ok_fold:
  "render_ready s \<and> sched_inv s \<Longrightarrow>
   render_ready (fold sched_apply steps s) \<and> sched_inv (fold sched_apply steps s)"
proof (induction steps arbitrary: s)
  case Nil
  then show ?case by simp
next
  case (Cons e steps)
  show ?case
    using Cons.IH [OF sched_ok_apply [OF Cons.prems, of e]] by simp
qed

lemma markDirty_passes:
  "renders (markDirty s) = renders s" "draw_log (markDirty s) = draw_log s"
  by (simp_all add: markDirty_def requestAnimationFrame_def Let_def)

lemma run_callback_clean:
  "\<not> dirty s \<Longrightarrow> renders (run_callback s) = renders s \<and> draw_log (run_callback s) = draw_log s"
  by (simp add: run_callback_def frame_clean split: list.splits)

lemma render_ready_initGeometry: "render_ready (initGeometry (initProgram s))"
  by (simp add: render_ready_def initGeometry_def initProgram_def)

lemma render_ready_initGL: "render_ready (initGL s)"
  using render_ready_initGeometry [of s]
  by (simp add: initGL_def render_ready_def markDirty_def requestAnimationFrame_def
      uploadViewProj_def Let_def)

lemma render_ready_handle: "render_ready s \<Longrightarrow> render_ready (handle e s)"
  by (cases e)
    (simp_all add: render_ready_initGL render_ready_run_callback render_ready_markDirty
      webglcontextrestored_def,
     simp_all add: render_ready_def bindControl_push_def markDirty_def
      requestAnimationFrame_def uploadViewProj_def Let_def
      apply_cx_def apply_cy_def apply_ang_def apply_zoom_def apply_fov_def apply_camz_def
      modeOrtho_change_def modePersp_change_def resetBtn_click_def resize_def
      webglcontextlost_def cancelAnimationFrame_def)


section \<open>Facts about the camera\<close>

lemma markDirty_camera:
  "mode (markDirty s) = mode s" "cx (markDirty s) = cx s" "cy (markDirty s) = cy s"
  "cz (markDirty s) = cz s" "ang (markDirty s) = ang s" "zoom (markDirty s) = zoom s"
  "fovDeg (markDirty s) = fovDeg s" "near (markDirty s) = near s" "far (markDirty s) = far s"
  by (simp_all add: markDirty_def requestAnimationFrame_def Let_def)

lemma uploadViewProj_camera:
  "mode (uploadViewProj s) = mode s" "cx (uploadViewProj s) = cx s"
  "cy (uploadViewProj s) = cy s" "cz (uploadViewProj s) = cz s"
  "ang (uploadViewProj s) = ang s" "zoom (uploadViewProj s) = zoom s"
  "fovDeg (uploadViewProj s) = fovDeg s" "near (uploadViewProj s) = near s"
  "far (uploadViewProj s) = far s"
  by (simp_all add: uploadViewProj_def)

lemma initGL_camera:
  "mode (initGL s) = mode s" "cx (initGL s) = cx s"
  "cy (initGL s) = cy s" "cz (initGL s) = cz s"
  "ang (initGL s) = ang s" "zoom (initGL s) = zoom s"
  "fovDeg (initGL s) = fovDeg s" "near (initGL s) = near s"
  "far (initGL s) = far s"
  by (simp_all add: initGL_def initGeometry_def initProgram_def markDirty_camera
      uploadViewProj_camera)

lemmas camera_frame = markDirty_camera uploadViewProj_camera run_callback_camera initGL_camera

lemma cam_inv_init: "cam_inv (init_state w h)"
  by (simp add: cam_inv_def init_state_def)

lemma cam_inv_handle: "cam_inv s \<Longrightarrow> cam_inv (handle e s)"
  by (cases e)
    (simp_all add: cam_inv_def bindControl_push_def camera_frame
      apply_cx_def apply_cy_def apply_ang_def apply_zoom_def apply_fov_def apply_camz_def
      clamp_def modeOrtho_change_def modePersp_change_def resetBtn_click_def resize_def
      webglcontextlost_def webglcontextrestored_def cancelAnimationFrame_def)

lemma cam_inv_fold: "cam_inv s \<Longrightarrow> cam_inv (fold handle events s)"
  by (induction events arbitrary: s) (simp_all add: cam_inv_handle)

lemma cam_inv_run: "cam_inv (run events (init_state w h))"
  by (simp add: run_def cam_inv_fold cam_inv_init)

lemma halfH_defined: "computeViewProj_halfH s = Some (1 / max 0.001 (zoom s))"
  by (simp add: computeViewProj_halfH_def fdiv_def max_def)

lemma divide_cancel_left_iff:
  "c \<noteq> 0 \<Longrightarrow> a \<noteq> 0 \<Longrightarrow> b \<noteq> 0 \<Longrightarrow> (c / a = c / b) = (a = (b::real))"
  by (simp add: field_simps)

lemma half_fov_in_range:
  assumes "1 \<le> (fd::real)" and "fd \<le> 179"
  shows "0 < fd * pi / 180 / 2 \<and> fd * pi / 180 / 2 < pi / 2"
proof -
  have "0 < fd * pi / 180 / 2"
    using assms by simp
  moreover have "fd * pi / 180 / 2 < pi / 2"
  proof -
    have "fd * pi < 180 * pi"
      using assms by simp
    then show ?thesis by simp
  qed
  ultimately show ?thesis by simp
qed

lemma proj_scale_nonzero: "cam_inv s \<Longrightarrow> proj_scale s \<noteq> 0"
proof -
  assume inv: "cam_inv s"
  then have r: "0 < fovDeg s * pi / 180 / 2 \<and> fovDeg s * pi / 180 / 2 < pi / 2"
    using half_fov_in_range [of "fovDeg s"] by (simp add: cam_inv_def)
  then have "0 < cos (fovDeg s * pi / 180 / 2)"
    by (intro cos_gt_zero) simp_all
  moreover have "0 < sin (fovDeg s * pi / 180 / 2)"
    using r by (intro sin_gt_zero) simp_all
  ultimately show ?thesis
    by (simp add: proj_scale_def max_def)
qed

lemma computeViewProj_P_first_cell:
  assumes "cam_inv s" and "0 < canvas_width s" and "0 < canvas_height s"
  shows "\<exists>m. computeViewProj_P s = Some m \<and>
             m ! 0 = proj_scale s / (real (canvas_width s) / real (canvas_height s))"
proof -
  let ?a = "real (canvas_width s) / real (canvas_height s)"
  have a: "computeViewProj_aspect s = Some ?a" "0 < ?a"
    using assms by (simp_all add: computeViewProj_aspect_def fdiv_def)
  show ?thesis
  proof (cases "mode s = Persp")
    case True
    have r: "0 < fovDeg s * pi / 180 / 2 \<and> fovDeg s * pi / 180 / 2 < pi / 2"
      using assms half_fov_in_range [of "fovDeg s"] by (simp add: cam_inv_def)
    then have c: "0 < cos (fovDeg s * pi / 180 / 2)"
      by (intro cos_gt_zero) simp_all
    have sn: "0 < sin (fovDeg s * pi / 180 / 2)"
      using r by (intro sin_gt_zero) simp_all
    have nf: "near s \<noteq> far s"
      using assms by (simp add: cam_inv_def)
    have "computeViewProj_P s = mat4Perspective (fovDeg s) ?a (near s) (far s)"
      using True a by (simp add: computeViewProj_P_def)
    also have "\<dots> = Some [1 / (sin (fovDeg s * pi / 180 / 2) / cos (fovDeg s * pi / 180 / 2)) / ?a, 0, 0, 0,
           0, 1 / (sin (fovDeg s * pi / 180 / 2) / cos (fovDeg s * pi / 180 / 2)), 0, 0,
           0, 0, (far s + near s) * (1 / (near s - far s)), - 1,
           0, 0, (2 * far s * near s) * (1 / (near s - far s)), 0]"
    proof (rule mat4Perspective_cells)
      show "cos (fovDeg s * pi / 180 / 2) \<noteq> 0"
        using c by (rule less_imp_neq [THEN not_sym])
      show "sin (fovDeg s * pi / 180 / 2) \<noteq> 0"
        using sn by (rule less_imp_neq [THEN not_sym])
      show "near s \<noteq> far s"
        by (rule nf)
      show "?a \<noteq> 0"
        using a(2) by (rule less_imp_neq [THEN not_sym])
    qed
    finally show ?thesis
      using True assms by (simp add: proj_scale_def)
  next
    case False
    let ?H = "1 / max 0.001 (zoom s)"
    have H: "computeViewProj_halfH s = Some ?H" "0 < ?H"
      by (simp_all add: computeViewProj_halfH_def fdiv_def max_def)
    have W: "0 < ?H * ?a"
      using H(2) a(2) by (rule mult_pos_pos)
    have "computeViewProj_P s = mat4Ortho (- (?H * ?a)) (?H * ?a) (- ?H) ?H (- 10) 10"
      using False a(1) H(1) by (simp only: computeViewProj_P_def Let_def bind.bind_lunit if_False)
    also have "\<dots> = Some [2 / (?H * ?a - - (?H * ?a)), 0, 0, 0,
           0, 2 / (?H - - ?H), 0, 0,
           0, 0, - 2 / (10 - - 10), 0,
           - (?H * ?a + - (?H * ?a)) / (?H * ?a - - (?H * ?a)), - (?H + - ?H) / (?H - - ?H),
           - (10 + - 10) / (10 - - 10), 1]"
    proof (rule mat4Ortho_cells)
      show "?H * ?a \<noteq> - (?H * ?a)"
        using W by linarith
      show "?H \<noteq> - ?H"
        using H(2) by linarith
      show "(10::real) \<noteq> - 10"
        by simp
    qed
    finally show ?thesis
      using False by (simp add: proj_scale_def)
  qed
qed

section \<open>Claims about the matrix library\<close>

text \<open>
  C7. For every 4x4 matrix \<open>M\<close> (a 16-cell array), \<open>mat4Mul(mat4Identity(), M)\<close> equals
  \<open>M\<close> and \<open>mat4Mul(M, mat4Identity())\<close> equals \<open>M\<close>: the identity matrix is a left and a
  right unit of the matrix multiply.
\<close>

theorem mat4Mul_identity_laws:
  "length M = 16 \<Longrightarrow> mat4Mul mat4Identity M = M \<and> mat4Mul M mat4Identity = M"
  by (simp add: mat4Mul_identity_left mat4Mul_identity_right)

theorem mat4Mul_identity_laws_witness:
  "length [2, 3, 5, 7, 11, 13, 17, 19, 23, 29, 31, 37, 41, 43, 47, 53 :: real] = 16 \<and>
   mat4Mul mat4Identity [2, 3, 5, 7, 11, 13, 17, 19, 23, 29, 31, 37, 41, 43, 47, 53] =
     [2, 3, 5, 7, 11, 13, 17, 19, 23, 29, 31, 37, 41, 43, 47, 53] \<and>
   mat4Mul [2, 3, 5, 7, 11, 13, 17, 19, 23, 29, 31, 37, 41, 43, 47, 53] mat4Identity =
     [2, 3, 5, 7, 11, 13, 17, 19, 23, 29, 31, 37, 41, 43, 47, 53]"
  using mat4Mul_identity_laws
    [of "[2, 3, 5, 7, 11, 13, 17, 19, 23, 29, 31, 37, 41, 43, 47, 53]"]
  by simp

text \<open>
  C6. For all arguments, \<open>mat4TRS(tx,ty,tz, angZ, sx,sy,sz)\<close> is the matrix product
  translate * rotateZ * scale, the product being the one of the specification
  (\<open>mat_product\<close>); applied to a vector it scales first, then rotates, then translates;
  and \<open>mat4TRS(0,0,0, 0, 1,1,1)\<close> is the identity matrix.
\<close>

theorem mat4TRS_is_translate_rotate_scale:
  "mat4TRS tx ty tz a sx sy sz =
     mat_product (mat4Translate tx ty tz) (mat_product (mat4RotateZ a) (mat4Scale sx sy sz)) \<and>
   mat4MulVec (mat4TRS tx ty tz a sx sy sz) v =
     mat4MulVec (mat4Translate tx ty tz)
       (mat4MulVec (mat4RotateZ a) (mat4MulVec (mat4Scale sx sy sz) v)) \<and>
   mat4TRS 0 0 0 0 1 1 1 = mat4Identity"
proof (intro conjI)
  show "mat4TRS tx ty tz a sx sy sz =
     mat_product (mat4Translate tx ty tz) (mat_product (mat4RotateZ a) (mat4Scale sx sy sz))"
    by (simp add: mat4TRS_def mat4Mul_is_mat_product)
  show "mat4MulVec (mat4TRS tx ty tz a sx sy sz) v =
     mat4MulVec (mat4Translate tx ty tz)
       (mat4MulVec (mat4RotateZ a) (mat4MulVec (mat4Scale sx sy sz) v))"
    by (simp add: mat4TRS_def mat4MulVec_mat4Mul)
  show "mat4TRS 0 0 0 0 1 1 1 = mat4Identity"
    by (simp add: mat4TRS_cells mat4Identity_cells)
qed


section \<open>Claims about the geometry builder\<close>

text \<open>
  C1, as the specification states it: for every \<open>segments \<ge> 3\<close> the polygon builder
  produces a fan of \<open>segments\<close> triangles, each with one vertex at the origin and two on
  the unit circle. At \<open>segments = 4\<close> the builder produces the four boundary vertices
  and nothing else; drawn as a triangle fan they are two triangles around the hub
  \<open>(1, 0)\<close>, so the statement fails there.
\<close>

theorem makePolygonVAO_square_counterexample:
  "vertices (vao (makePolygonVAO 4)) = [(1, 0), (0, 1), (- 1, 0), (0, - 1)] \<and>
   triangle_fan (vertices (vao (makePolygonVAO 4))) =
     [((1, 0), (0, 1), (- 1, 0)), ((1, 0), (- 1, 0), (0, - 1))] \<and>
   \<not> spec_buildPolygon_fan 4 (vertices (vao (makePolygonVAO 4)))"
  by (simp add: square_vertices spec_buildPolygon_fan_def)

text \<open>
  C1, amended. For every \<open>segments\<close>, \<open>makePolygonVAO(segments)\<close> takes no colours and
  uploads two floats for each of exactly \<open>segments\<close> vertices, vertex \<open>k\<close> being
  \<open>(cos t, sin t)\<close> for \<open>t = (k / segments) * pi * 2\<close>; every vertex lies on the unit
  circle and none at the origin. Drawn as a triangle fan the vertices give
  \<open>segments - 2\<close> triangles, all sharing the first vertex, which is \<open>(1, 0)\<close> for a
  positive \<open>segments\<close>.
\<close>

theorem makePolygonVAO_boundary_vertices:
  "vertices (vao (makePolygonVAO n)) =
     map (\<lambda>k. (cos (real k / real n * pi * 2), sin (real k / real n * pi * 2))) [0..<n] \<and>
   length (vao (makePolygonVAO n)) = 2 * n \<and>
   length (vertices (vao (makePolygonVAO n))) = n \<and>
   list_all on_unit_circle (vertices (vao (makePolygonVAO n))) \<and>
   (0, 0) \<notin> set (vertices (vao (makePolygonVAO n))) \<and>
   length (triangle_fan (vertices (vao (makePolygonVAO n)))) = n - 2 \<and>
   list_all (\<lambda>t. fst t = hd (vertices (vao (makePolygonVAO n))))
     (triangle_fan (vertices (vao (makePolygonVAO n)))) \<and>
   hd (vertices (vao (makePolygonVAO (Suc n)))) = (1, 0)"
proof -
  have "length (vertices (vao (makePolygonVAO n))) = n"
    by (simp add: makePolygonVAO_vertices)
  moreover have "hd (vertices (vao (makePolygonVAO (Suc n)))) = (1, 0)"
    by (simp add: makePolygonVAO_vertices upt_rec del: upt_Suc)
  ultimately show ?thesis
    using makePolygonVAO_vertices [of n] makePolygonVAO_length [of n]
      makePolygonVAO_on_circle [of n] makePolygonVAO_no_origin [of n]
      length_triangle_fan [of "vertices (vao (makePolygonVAO n))"]
      triangle_fan_hub [of "vertices (vao (makePolygonVAO n))"]
    by simp
qed

text \<open>
  C8. The descriptor that \<open>makePolygonVAO(segments)\<close> returns has a vertex count equal to
  \<open>segments\<close>: 4 for \<open>segments = 4\<close>, 96 for \<open>segments = 96\<close>, and 96 for the circle that
  \<open>initGeometry\<close> stores in the geometry cache.
\<close>

theorem makePolygonVAO_vertex_count:
  "count (makePolygonVAO segments) = real segments \<and>
   count (makePolygonVAO 4) = 4 \<and>
   count (makePolygonVAO 96) = 96 \<and>
   map_option count (geo (initGeometry s) ''circle'') = Some 96"
  by (simp add: makePolygonVAO_count initGeometry_def)


section \<open>Claims about the redraw scheduler\<close>

text \<open>
  C2. Take a state in which the program and the geometry are initialised, as
  \<open>initGL\<close> leaves them, and the scheduler is in its initial state (\<open>_dirty\<close> set,
  \<open>_raf\<close> zero, no callback requested), and from it any sequence of \<open>markDirty\<close> calls
  and animation-frame callbacks, \<open>frame\<close> running only as a callback the browser was
  asked for. Then at most one callback is outstanding, and one is outstanding exactly
  when \<open>_raf\<close> is set; \<open>markDirty\<close> with a request pending requests nothing new (and
  requests one callback otherwise); the callback, when it runs, returns without an
  exception, makes exactly one render pass of 509 draw commands and clears \<open>_dirty\<close>
  and \<open>_raf\<close>; and while \<open>_dirty\<close> is clear no step renders or draws. Whatever the
  state, \<open>frame\<close> with \<open>_dirty\<close> clear only clears \<open>_raf\<close>, and in an initialised state
  it returns, renders once if \<open>_dirty\<close> is set and not at all otherwise, and leaves both
  flags clear. (Before \<open>initProgram\<close> has run, \<open>render\<close> throws in its first \<open>draw\<close>:
  that is \<open>frame_not_ready\<close> above, and no state of this theorem.)
\<close>

theorem scheduler_one_shot:
  assumes "render_ready s0" and "dirty s0" and "raf s0 = 0" and "raf_callbacks s0 = []"
    and "s = sched_run steps s0"
  shows "length (raf_callbacks s) \<le> 1 \<and>
         (raf s \<noteq> 0) = (raf_callbacks s \<noteq> []) \<and>
         (raf s \<noteq> 0 \<longrightarrow>
            raf_callbacks (markDirty s) = raf_callbacks s \<and>
            raf_handle (markDirty s) = raf_handle s) \<and>
         (raf s = 0 \<longrightarrow> length (raf_callbacks (markDirty s)) = 1) \<and>
         (raf_callbacks s \<noteq> [] \<longrightarrow>
            frame (s\<lparr> raf_callbacks := [] \<rparr>) = Normal (run_callback s) \<and>
            renders (run_callback s) = renders s + 1 \<and>
            length (draw_log (run_callback s)) = length (draw_log s) + 509 \<and>
            \<not> dirty (run_callback s) \<and> raf (run_callback s) = 0 \<and>
            raf_callbacks (run_callback s) = []) \<and>
         (\<not> dirty s \<longrightarrow>
            renders (sched_apply e s) = renders s \<and>
            draw_log (sched_apply e s) = draw_log s) \<and>
         (\<not> dirty s \<longrightarrow> dirty (markDirty s) \<and> length (raf_callbacks (markDirty s)) = 1) \<and>
         (\<not> dirty s' \<longrightarrow> frame s' = Normal (s'\<lparr> raf := 0 \<rparr>)) \<and>
         (render_ready s' \<longrightarrow>
            frame s' = Normal (state_of (frame s')) \<and>
            renders (state_of (frame s')) = (if dirty s' then renders s' + 1 else renders s') \<and>
            \<not> dirty (state_of (frame s')) \<and> raf (state_of (frame s')) = 0)"
proof -
  have "render_ready s0 \<and> sched_inv s0"
    using assms(1-4) by (simp add: sched_inv_def)
  then have ok: "render_ready s \<and> sched_inv s"
    unfolding assms(5) sched_run_def by (rule sched_ok_fold)
  then have inv: "sched_inv s" and ready: "render_ready s"
    by simp_all
  obtain c p where geo: "geo s ''circle'' = Some c" "geo s ''point'' = Some p"
    using render_ready_cached [OF ready] by auto
  note rc = run_callback_ready [OF ready geo]
  have a: "length (raf_callbacks s) \<le> 1"
    using inv by (simp add: sched_inv_def split: if_splits)
  have b: "(raf s \<noteq> 0) = (raf_callbacks s \<noteq> [])"
    using inv by (simp add: sched_inv_def split: if_splits)
  have c: "raf s \<noteq> 0 \<longrightarrow>
            raf_callbacks (markDirty s) = raf_callbacks s \<and>
            raf_handle (markDirty s) = raf_handle s"
    by (simp add: markDirty_def)
  have d: "raf s = 0 \<longrightarrow> length (raf_callbacks (markDirty s)) = 1"
    using inv by (simp add: sched_inv_def markDirty_def requestAnimationFrame_def Let_def)
  have e: "raf_callbacks s \<noteq> [] \<longrightarrow>
            frame (s\<lparr> raf_callbacks := [] \<rparr>) = Normal (run_callback s) \<and>
            renders (run_callback s) = renders s + 1 \<and>
            length (draw_log (run_callback s)) = length (draw_log s) + 509 \<and>
            \<not> dirty (run_callback s) \<and> raf (run_callback s) = 0 \<and>
            raf_callbacks (run_callback s) = []"
  proof
    assume "raf_callbacks s \<noteq> []"
    then have q: "raf_callbacks s = [raf s]" "dirty s"
      using inv by (simp_all add: sched_inv_def split: if_splits)
    have r: "run_callback s =
        s\<lparr> raf_callbacks := [], raf := 0, draw_log := draw_log s @ scene_calls c p,
            renders := renders s + 1, dirty := False \<rparr>"
      using rc q by simp
    have "render_ready (s\<lparr> raf_callbacks := [] \<rparr>)"
        "geo (s\<lparr> raf_callbacks := [] \<rparr>) ''circle'' = Some c"
        "geo (s\<lparr> raf_callbacks := [] \<rparr>) ''point'' = Some p"
      using ready geo by (simp_all add: render_ready_def)
    then have f: "frame (s\<lparr> raf_callbacks := [] \<rparr>) = Normal (run_callback s)"
      using q(2) frame_ready [of "s\<lparr> raf_callbacks := [] \<rparr>" c p] by (simp add: r)
    show "frame (s\<lparr> raf_callbacks := [] \<rparr>) = Normal (run_callback s) \<and>
            renders (run_callback s) = renders s + 1 \<and>
            length (draw_log (run_callback s)) = length (draw_log s) + 509 \<and>
            \<not> dirty (run_callback s) \<and> raf (run_callback s) = 0 \<and>
            raf_callbacks (run_callback s) = []"
      using f by (simp add: r length_scene_calls)
  qed
  have f: "\<not> dirty s \<longrightarrow>
            renders (sched_apply e s) = renders s \<and>
            draw_log (sched_apply e s) = draw_log s"
    by (cases e) (simp_all add: markDirty_passes run_callback_clean)
  have g: "\<not> dirty s \<longrightarrow> dirty (markDirty s) \<and> length (raf_callbacks (markDirty s)) = 1"
    using inv
    by (simp add: sched_inv_def markDirty_def requestAnimationFrame_def Let_def split: if_splits)
  have h: "\<not> dirty s' \<longrightarrow> frame s' = Normal (s'\<lparr> raf := 0 \<rparr>)"
    by (simp add: frame_clean)
  have i: "render_ready s' \<longrightarrow>
            frame s' = Normal (state_of (frame s')) \<and>
            renders (state_of (frame s')) = (if dirty s' then renders s' + 1 else renders s') \<and>
            \<not> dirty (state_of (frame s')) \<and> raf (state_of (frame s')) = 0"
  proof
    assume r': "render_ready s'"
    obtain c' p' where "geo s' ''circle'' = Some c'" "geo s' ''point'' = Some p'"
      using render_ready_cached [OF r'] by auto
    then show "frame s' = Normal (state_of (frame s')) \<and>
            renders (state_of (frame s')) = (if dirty s' then renders s' + 1 else renders s') \<and>
            \<not> dirty (state_of (frame s')) \<and> raf (state_of (frame s')) = 0"
      using frame_ready [OF r', of c' p'] by simp
  qed
  from a b c d e f g h i show ?thesis
    by blast
qed

theorem scheduler_one_shot_witness:
  "render_ready (initGeometry (initProgram (init_state 300 150))) \<and>
   dirty (initGeometry (initProgram (init_state 300 150))) \<and>
   raf (initGeometry (initProgram (init_state 300 150))) = 0 \<and>
   raf_callbacks (initGeometry (initProgram (init_state 300 150))) = [] \<and>
   raf (sched_run [MarkDirty] (initGeometry (initProgram (init_state 300 150)))) \<noteq> 0 \<and>
   raf_callbacks (sched_run [MarkDirty] (initGeometry (initProgram (init_state 300 150)))) \<noteq> [] \<and>
   raf_callbacks (markDirty (sched_run [MarkDirty] (initGeometry (initProgram (init_state 300 150))))) =
     raf_callbacks (sched_run [MarkDirty] (initGeometry (initProgram (init_state 300 150)))) \<and>
   renders (run_callback (sched_run [MarkDirty] (initGeometry (initProgram (init_state 300 150))))) =
     renders (sched_run [MarkDirty] (initGeometry (initProgram (init_state 300 150)))) + 1 \<and>
   \<not> dirty (run_callback (sched_run [MarkDirty] (initGeometry (initProgram (init_state 300 150))))) \<and>
   raf (run_callback (sched_run [MarkDirty] (initGeometry (initProgram (init_state 300 150))))) = 0"
proof -
  let ?s0 = "initGeometry (initProgram (init_state 300 150))"
  have r: "render_ready ?s0" "dirty ?s0" "raf ?s0 = 0" "raf_callbacks ?s0 = []"
    by (rule render_ready_initGeometry)
      (simp_all add: initGeometry_def initProgram_def init_state_def)
  have m: "raf (sched_run [MarkDirty] ?s0) \<noteq> 0" "raf_callbacks (sched_run [MarkDirty] ?s0) \<noteq> []"
    using r(3)
    by (simp_all add: sched_run_def markDirty_def requestAnimationFrame_def Let_def)
  show ?thesis
    using r m scheduler_one_shot [OF r refl, of "[MarkDirty]"]
    by simp
qed


section \<open>Claims about the camera\<close>

text \<open>
  C3. In orthographic mode with zoom 1, the camera at \<open>(0,0,0)\<close> with yaw 0 and a square
  canvas, \<open>computeViewProj\<close> returns a matrix, and that matrix maps the homogeneous
  point \<open>(0,0,0,1)\<close> to the clip-space point \<open>(0,0,0,1)\<close>, which has the form
  \<open>(0,0,*,1)\<close>.
\<close>

theorem ortho_origin_to_clip_origin:
  assumes "mode s = Ortho" and "zoom s = 1"
    and "cx s = 0" and "cy s = 0" and "cz s = 0" and "ang s = 0"
    and "canvas_width s = canvas_height s" and "0 < canvas_height s"
  shows "map_option (\<lambda>VP. mat4MulVec VP (0, 0, 0, 1)) (computeViewProj s) = Some (0, 0, 0, 1)"
proof -
  have aspect: "computeViewProj_aspect s = Some 1"
    using assms by (simp add: computeViewProj_aspect_def fdiv_def)
  have halfH: "computeViewProj_halfH s = Some 1"
    using assms by (simp add: computeViewProj_halfH_def fdiv_def)
  have P: "computeViewProj_P s =
      Some [1, 0, 0, 0, 0, 1, 0, 0, 0, 0, - (1 / 10), 0, 0, 0, 0, 1]"
    using assms by (simp add: computeViewProj_P_def aspect halfH mat4Ortho_cells)
  have V: "computeViewProj_V s = mat4Identity"
    using assms by (simp add: computeViewProj_V_def mat4View_cells mat4Identity_cells)
  show ?thesis
    by (simp add: computeViewProj_def P V mat4Mul_cells mat4Identity_cells
        mat4MulVec_def idx4_def)
qed

theorem ortho_origin_to_clip_origin_witness:
  "mode ((init_state 640 640)\<lparr> cz := 0 \<rparr>) = Ortho \<and>
   zoom ((init_state 640 640)\<lparr> cz := 0 \<rparr>) = 1 \<and>
   canvas_width ((init_state 640 640)\<lparr> cz := 0 \<rparr>) =
     canvas_height ((init_state 640 640)\<lparr> cz := 0 \<rparr>) \<and>
   map_option (\<lambda>VP. mat4MulVec VP (0, 0, 0, 1))
     (computeViewProj ((init_state 640 640)\<lparr> cz := 0 \<rparr>)) = Some (0, 0, 0, 1)"
  using ortho_origin_to_clip_origin [of "(init_state 640 640)\<lparr> cz := 0 \<rparr>"]
  by (simp add: init_state_def)

text \<open>
  C4. For every state, the change handlers of the two mode buttons leave \<open>cx\<close>, \<open>cy\<close>,
  \<open>cz\<close> and \<open>ang\<close> as they were, and with them \<open>zoom\<close>, \<open>fovDeg\<close>, \<open>near\<close> and \<open>far\<close>; of
  the camera only \<open>mode\<close> changes, to the mode of the button when it is checked.
\<close>

theorem mode_switch_keeps_position_and_yaw:
  "cx (modeOrtho_change b s) = cx s \<and> cy (modeOrtho_change b s) = cy s \<and>
   cz (modeOrtho_change b s) = cz s \<and> ang (modeOrtho_change b s) = ang s \<and>
   zoom (modeOrtho_change b s) = zoom s \<and> fovDeg (modeOrtho_change b s) = fovDeg s \<and>
   near (modeOrtho_change b s) = near s \<and> far (modeOrtho_change b s) = far s \<and>
   mode (modeOrtho_change b s) = (if b then Ortho else mode s) \<and>
   cx (modePersp_change b s) = cx s \<and> cy (modePersp_change b s) = cy s \<and>
   cz (modePersp_change b s) = cz s \<and> ang (modePersp_change b s) = ang s \<and>
   zoom (modePersp_change b s) = zoom s \<and> fovDeg (modePersp_change b s) = fovDeg s \<and>
   near (modePersp_change b s) = near s \<and> far (modePersp_change b s) = far s \<and>
   mode (modePersp_change b s) = (if b then Persp else mode s)"
  by (simp add: modeOrtho_change_def modePersp_change_def camera_frame)

text \<open>
  C5. An input event of the zoom control with value \<open>v\<close> stores \<open>max 0.001 v\<close>, so a value
  of 0, or any value below the minimum, is stored as 0.001; the divisor of
  \<open>1.0 / Math.max(0.001, zoom)\<close> in \<open>computeViewProj\<close> is then that positive number, and
  the half-height is defined. The divisor is in fact never zero, whatever the state.
\<close>

theorem zoom_clamped_before_division:
  "zoom (handle (InputZoom v) s) = max 0.001 v \<and>
   0.001 \<le> zoom (handle (InputZoom v) s) \<and>
   zoom (handle (InputZoom 0) s) = 0.001 \<and>
   max 0.001 (zoom (handle (InputZoom v) s)) = max 0.001 v \<and>
   computeViewProj_halfH (handle (InputZoom v) s) = Some (1 / max 0.001 v) \<and>
   computeViewProj_halfH s \<noteq> None"
  by (simp add: halfH_defined bindControl_push_def camera_frame apply_zoom_def)

text \<open>
  C9. Take any state the page can reach from its initial state, and two canvas sizes
  with positive sides and different aspect ratios. At both sizes the view matrix of
  \<open>computeViewProj\<close> is \<open>mat4View(cx, cy, cz, ang)\<close>, the projection matrix is defined
  and differs between the two, and the result is the product of that projection with
  the one view matrix.
\<close>

theorem aspect_changes_projection_not_view:
  assumes "s = run events (init_state w0 h0)"
    and "0 < w1" and "0 < h1" and "0 < w2" and "0 < h2"
    and "real w1 / real h1 \<noteq> real w2 / real h2"
  shows "computeViewProj_V (s\<lparr> canvas_width := w1, canvas_height := h1 \<rparr>) =
           mat4View (cx s) (cy s) (cz s) (ang s) \<and>
         computeViewProj_V (s\<lparr> canvas_width := w2, canvas_height := h2 \<rparr>) =
           mat4View (cx s) (cy s) (cz s) (ang s) \<and>
         computeViewProj_P (s\<lparr> canvas_width := w1, canvas_height := h1 \<rparr>) \<noteq> None \<and>
         computeViewProj_P (s\<lparr> canvas_width := w2, canvas_height := h2 \<rparr>) \<noteq> None \<and>
         computeViewProj_P (s\<lparr> canvas_width := w1, canvas_height := h1 \<rparr>) \<noteq>
           computeViewProj_P (s\<lparr> canvas_width := w2, canvas_height := h2 \<rparr>) \<and>
         computeViewProj (s\<lparr> canvas_width := w1, canvas_height := h1 \<rparr>) =
           map_option (\<lambda>P. mat4Mul P (mat4View (cx s) (cy s) (cz s) (ang s)))
             (computeViewProj_P (s\<lparr> canvas_width := w1, canvas_height := h1 \<rparr>)) \<and>
         computeViewProj (s\<lparr> canvas_width := w2, canvas_height := h2 \<rparr>) =
           map_option (\<lambda>P. mat4Mul P (mat4View (cx s) (cy s) (cz s) (ang s)))
             (computeViewProj_P (s\<lparr> canvas_width := w2, canvas_height := h2 \<rparr>))"
proof -
  define s1 where "s1 = s\<lparr> canvas_width := w1, canvas_height := h1 \<rparr>"
  define s2 where "s2 = s\<lparr> canvas_width := w2, canvas_height := h2 \<rparr>"
  have inv: "cam_inv s"
    using assms(1) by (simp add: cam_inv_run)
  have inv1: "cam_inv s1" and inv2: "cam_inv s2"
    using inv by (simp_all add: cam_inv_def s1_def s2_def)
  have sc: "proj_scale s1 = proj_scale s" "proj_scale s2 = proj_scale s"
    by (simp_all add: proj_scale_def s1_def s2_def)
  have c1: "canvas_width s1 = w1" "canvas_height s1 = h1"
    and c2: "canvas_width s2 = w2" "canvas_height s2 = h2"
    by (simp_all add: s1_def s2_def)
  obtain m1 where m1: "computeViewProj_P s1 = Some m1"
      "m1 ! 0 = proj_scale s / (real w1 / real h1)"
    using computeViewProj_P_first_cell [OF inv1] assms(2,3) sc c1 by auto
  obtain m2 where m2: "computeViewProj_P s2 = Some m2"
      "m2 ! 0 = proj_scale s / (real w2 / real h2)"
    using computeViewProj_P_first_cell [OF inv2] assms(4,5) sc c2 by auto
  have nz: "proj_scale s \<noteq> 0"
    using inv by (rule proj_scale_nonzero)
  have a1: "real w1 / real h1 \<noteq> 0" and a2: "real w2 / real h2 \<noteq> 0"
    using assms(2-5) by simp_all
  have "m1 ! 0 \<noteq> m2 ! 0"
    unfolding m1(2) m2(2) divide_cancel_left_iff [OF nz a1 a2] by (rule assms(6))
  then have diff: "computeViewProj_P s1 \<noteq> computeViewProj_P s2"
    using m1(1) m2(1) by auto
  have V: "computeViewProj_V s1 = mat4View (cx s) (cy s) (cz s) (ang s)"
      "computeViewProj_V s2 = mat4View (cx s) (cy s) (cz s) (ang s)"
    by (simp_all add: computeViewProj_V_def s1_def s2_def)
  have "computeViewProj_V s1 = mat4View (cx s) (cy s) (cz s) (ang s) \<and>
        computeViewProj_V s2 = mat4View (cx s) (cy s) (cz s) (ang s) \<and>
        computeViewProj_P s1 \<noteq> None \<and> computeViewProj_P s2 \<noteq> None \<and>
        computeViewProj_P s1 \<noteq> computeViewProj_P s2 \<and>
        computeViewProj s1 =
          map_option (\<lambda>P. mat4Mul P (mat4View (cx s) (cy s) (cz s) (ang s))) (computeViewProj_P s1) \<and>
        computeViewProj s2 =
          map_option (\<lambda>P. mat4Mul P (mat4View (cx s) (cy s) (cz s) (ang s))) (computeViewProj_P s2)"
    using diff V m1(1) m2(1) by (simp add: computeViewProj_def)
  then show ?thesis
    unfolding s1_def s2_def .
qed

theorem aspect_changes_projection_not_view_witness:
  "(0::nat) < 800 \<and> (0::nat) < 600 \<and> (0::nat) < 1920 \<and> (0::nat) < 1080 \<and>
   real 800 / real 600 \<noteq> real 1920 / real 1080 \<and>
   computeViewProj_P ((run [InputFov 90, ModePerspChange True] (init_state 300 150))
      \<lparr> canvas_width := 800, canvas_height := 600 \<rparr>) \<noteq>
   computeViewProj_P ((run [InputFov 90, ModePerspChange True] (init_state 300 150))
      \<lparr> canvas_width := 1920, canvas_height := 1080 \<rparr>)"
  using aspect_changes_projection_not_view
    [where s = "run [InputFov 90, ModePerspChange True] (init_state 300 150)"
       and events = "[InputFov 90, ModePerspChange True]" and ?w0.0 = 300 and ?h0.0 = 150
       and ?w1.0 = 800 and ?h1.0 = 600 and ?w2.0 = 1920 and ?h2.0 = 1080]
  by simp

text \<open>
  C10. The camera depth is at least 0.05 in every state the page can reach from its
  initial state: the depth control stores \<open>max 0.05 v\<close>, so a smaller or non-positive
  value is replaced by 0.05; the initial value is 3 and reset stores 3; and every
  event keeps the bound.
\<close>

theorem camera_depth_at_least_minimum:
  "0.05 \<le> cz (run events (init_state w h)) \<and>
   cz (handle (InputCamz v) s) = max 0.05 v \<and>
   (v \<le> 0.05 \<longrightarrow> cz (handle (InputCamz v) s) = 0.05) \<and>
   cz (init_state w h) = 3 \<and>
   cz (handle (ResetClick b) s) = 3 \<and>
   (0.05 \<le> cz s \<longrightarrow> 0.05 \<le> cz (handle e s))"
proof -
  have "0.05 \<le> cz (run events (init_state w h))"
    using cam_inv_run [of events w h] by (simp add: cam_inv_def)
  moreover have "0.05 \<le> cz s \<longrightarrow> 0.05 \<le> cz (handle e s)"
    by (cases e)
      (simp_all add: bindControl_push_def camera_frame
        apply_cx_def apply_cy_def apply_ang_def apply_zoom_def apply_fov_def apply_camz_def
        modeOrtho_change_def modePersp_change_def resetBtn_click_def resize_def
        webglcontextlost_def webglcontextrestored_def cancelAnimationFrame_def)
  ultimately show ?thesis
    by (simp add: bindControl_push_def camera_frame apply_camz_def resetBtn_click_def
        init_state_def)
qed

theorem camera_depth_at_least_minimum_witness:
  "(- 2 :: real) \<le> 0.05 \<and>
   cz (handle (InputCamz (- 2)) (init_state 300 150)) = 0.05 \<and>
   0.05 \<le> cz (init_state 300 150) \<and>
   0.05 \<le> cz (handle (InputCamz (- 2)) (init_state 300 150))"
  using camera_depth_at_least_minimum
    [where v = "- 2" and s = "init_state 300 150" and e = "InputCamz (- 2)"]
  by (simp add: init_state_def)

end
